theory Spec2Isabelle
  imports Main "HOL-Library.Sublist" "HOL-Library.Word"
begin

section \<open>The chart-analysis endpoint\<close>

text \<open>
  The repository is one serverless HTTP handler in three versions:
  \<^item> \<open>src/api/analyze-chart.js\<close> (model \<open>gemini-1.5-pro\<close>, the reply is handed to
    \<open>JSON.parse\<close> as it is), embedded as \<open>handler\<close>;
  \<^item> the first document of \<open>src/unnamed/part_000\<close> (the "fundamental" version, model
    \<open>gemini-2.5-pro\<close>, the reply is first searched for a fenced block), embedded as
    \<open>handler_fundamental\<close>;
  \<^item> the second document of \<open>src/unnamed/part_000\<close> (model
    \<open>gemini-1.5-flash-latest\<close>, with a \<open>busboy\<close> preamble), embedded as \<open>handler_flash\<close>.

  Everything the handler does not compute itself (the environment variable, the multipart
  parser, the file system, the model provider, \<open>JSON.parse\<close>, base64) is a field of the
  record \<open>world\<close>; a call that can throw returns a sum, \<open>Inl\<close> the thrown error.
  The handler returns the effects it performed, in order, and the response it sent.
  The two statements between the credential check and the \<open>try\<close> block build the client
  and pick the model's name; they reach nothing outside the program and are not steps
  of the model. JavaScript strings are \<open>string\<close>s.
\<close>

subsection \<open>Values\<close>

text \<open>A thrown JavaScript error; the handler reads only its \<open>message\<close>.\<close>

datatype js_error = Error (message: string)

text \<open>
  What \<open>JSON.parse\<close> returns and \<open>response.json\<close> sends. A number is kept as the bit
  pattern of its IEEE-754 double: the handler never computes with one.
\<close>

datatype json =
    JNull
  | JBool bool
  | JNumber "64 word"
  | JString string
  | JArray "json list"
  | JObject "(string \<times> json) list"

type_synonym buffer = "8 word list"

text \<open>A property that holds a string, \<open>null\<close> or \<open>undefined\<close>.\<close>

datatype nullable = Undefined | Null | Str string

text \<open>A file of formidable's \<open>files\<close> object; its \<open>mimetype\<close> is a string or \<open>null\<close>.\<close>

record uploaded_file =
  filepath :: string
  mimetype :: nullable

type_synonym fields = "string \<rightharpoonup> string list"
type_synonym files = "string \<rightharpoonup> uploaded_file list"

record request =
  method' :: string
  headers :: "string \<rightharpoonup> string"
  body :: buffer

record response =
  status :: nat
  json_body :: json

text \<open>The parts of the prompt: \<open>{ inlineData: { data, mimeType } }\<close> and \<open>{ text }\<close>.\<close>

datatype part = InlineData string nullable | Text string

datatype content = Content string "part list"

record generate_request =
  contents :: "content list"
  responseMimeType :: "string option"

subsection \<open>Effects\<close>

datatype event =
    FormParse
  | ReadFile string
  | GenerateContent string generate_request
  | ConsoleLog string string
  | ConsoleError string js_error

record world =
  GEMINI_API_KEY :: "string option"
  form_parse :: "request \<Rightarrow> js_error + (fields \<times> files)"
  readFile :: "string \<Rightarrow> js_error + buffer"
  toString_base64 :: "buffer \<Rightarrow> string"
  generateContent :: "string \<Rightarrow> generate_request \<Rightarrow> js_error + (js_error + string)"
  JSON_parse :: "string \<Rightarrow> js_error + json"
  require :: "string \<Rightarrow> js_error + unit"
  busboy :: "(string \<rightharpoonup> string) \<Rightarrow> js_error + unit"
  formidable :: "js_error + unit"

text \<open>
  A computation inside a \<open>try\<close> block: the effects performed so far, and either the thrown
  error or the value.
\<close>

type_synonym 'a io = "event list \<times> (js_error + 'a)"

definition io_return :: "'a \<Rightarrow> 'a io" where
  "io_return x = ([], Inr x)"

definition io_effect :: "event \<Rightarrow> js_error + 'a \<Rightarrow> 'a io" where
  "io_effect ev outcome = ([ev], outcome)"

text \<open>A step that can throw and has no effect outside the program.\<close>

definition io_pure :: "js_error + 'a \<Rightarrow> 'a io" where
  "io_pure outcome = ([], outcome)"

definition io_bind :: "'a io \<Rightarrow> ('a \<Rightarrow> 'b io) \<Rightarrow> 'b io" where
  "io_bind m f =
     (case m of
        (tr, Inl e) \<Rightarrow> (tr, Inl e)
      | (tr, Inr x) \<Rightarrow> (case f x of (tr', r) \<Rightarrow> (tr @ tr', r)))"

subsection \<open>JavaScript idioms the handler uses\<close>

text \<open>\<open>!x\<close> on a string or \<open>undefined\<close>: \<open>undefined\<close> and the empty string are falsy.\<close>

definition truthy :: "string option \<Rightarrow> bool" where
  "truthy x = (case x of None \<Rightarrow> False | Some s \<Rightarrow> s \<noteq> [])"

text \<open>
  \<open>fields.name ? fields.name[0] : dflt\<close>. An array is truthy even when it is empty, and
  the first element of an empty array is \<open>undefined\<close> (\<open>None\<close>).
\<close>

definition first_or :: "fields \<Rightarrow> string \<Rightarrow> string \<Rightarrow> string option" where
  "first_or fields' name dflt =
     (case fields' name of
        None \<Rightarrow> Some dflt
      | Some vs \<Rightarrow> (case vs of [] \<Rightarrow> None | v # _ \<Rightarrow> Some v))"

text \<open>\<open>${x}\<close> in a template literal.\<close>

definition interpolate :: "string option \<Rightarrow> string" where
  "interpolate x = (case x of None \<Rightarrow> ''undefined'' | Some s \<Rightarrow> s)"

text \<open>
  \<open>x.startsWith(p)\<close>: the member access throws a TypeError when \<open>x\<close> is \<open>null\<close> or
  \<open>undefined\<close> (the texts are those of Node's engine).
\<close>

definition startsWith :: "nullable \<Rightarrow> string \<Rightarrow> js_error + bool" where
  "startsWith x p =
     (case x of
        Undefined \<Rightarrow> Inl (Error ''Cannot read properties of undefined (reading 'startsWith')'')
      | Null \<Rightarrow> Inl (Error ''Cannot read properties of null (reading 'startsWith')'')
      | Str s \<Rightarrow> Inr (prefix p s))"

text \<open>\<open>h && h.includes(p)\<close> on a header that is a string or \<open>undefined\<close>.\<close>

definition and_includes :: "string option \<Rightarrow> string \<Rightarrow> bool" where
  "and_includes h p = (case h of None \<Rightarrow> False | Some s \<Rightarrow> s \<noteq> [] \<and> sublist p s)"

definition status_json :: "nat \<Rightarrow> json \<Rightarrow> response" where
  "status_json code j = \<lparr>status = code, json_body = j\<rparr>"

definition message_body :: "string \<Rightarrow> json" where
  "message_body m = JObject [(''message'', JString m)]"

definition analysis_body :: "json \<Rightarrow> json" where
  "analysis_body analysisOutput = JObject [(''analysis'', analysisOutput)]"

text \<open>The object literal of the fallback: five string fields, in this order.\<close>

definition analysis_record :: "string \<Rightarrow> string \<Rightarrow> string \<Rightarrow> string \<Rightarrow> string \<Rightarrow> json" where
  "analysis_record direction rationale support resistance riskWarning =
     JObject [(''direction'', JString direction), (''rationale'', JString rationale),
              (''support'', JString support), (''resistance'', JString resistance),
              (''riskWarning'', JString riskWarning)]"

definition fileToGenerativePart :: "world \<Rightarrow> buffer \<Rightarrow> nullable \<Rightarrow> part" where
  "fileToGenerativePart w fileBuffer mimeType = InlineData (toString_base64 w fileBuffer) mimeType"

subsection \<open>The handler of \<open>src/api/analyze-chart.js\<close>\<close>

definition languagePrompt :: "string option \<Rightarrow> string" where
  "languagePrompt outputLanguage =
     (if outputLanguage = Some ''id''
      then ''Berikan semua teks dalam output JSON dalam Bahasa Indonesia.''
      else ''Provide all text in the JSON output in English.'')"

text \<open>The template literal \<open>detailedPrompt\<close>, cut at its line ends and interpolations.\<close>

definition detailedPrompt :: "string option \<Rightarrow> string option \<Rightarrow> string option \<Rightarrow> string \<Rightarrow> string" where
  \<open>detailedPrompt assetType timeframe additionalNotes languagePrompt' = concat [
      ''\<newline>'',
      ''      **ROLE & GOAL:** You are a Senior Financial Market Analyst AI. Your goal is to perform a comprehensive market analysis of the provided chart image and output a structured, actionable conclusion in JSON format.\<newline>'',
      ''\<newline>'',
      ''      **MARKET DATA:**\<newline>'',
      ''      * **Asset:** '',
      interpolate assetType,
      ''\<newline>'',
      ''      * **Timeframe:** '',
      interpolate timeframe,
      ''\<newline>'',
      ''      * **User's Additional Context (News, Geopolitics, etc.):** "'',
      interpolate additionalNotes,
      ''"\<newline>'',
      ''\<newline>'',
      ''      **ANALYSIS INSTRUCTIONS (Perform these steps internally before concluding):**\<newline>'',
      ''      1.  **Market Character:** Briefly consider the typical volatility and drivers for '',
      interpolate assetType,
      ''.\<newline>'',
      ''      2.  **Comprehensive Technical Analysis:**\<newline>'',
      ''          * **Market Structure & Trend:** Identify the primary trend (Uptrend, Downtrend, Sideways) by analyzing swing highs and lows.\<newline>'',
      ''          * **Key Levels:** Pinpoint the most critical Support and Resistance levels. Identify any clear Supply/Demand zones or Fair Value Gaps (FVG).\<newline>'',
      ''          * **Chart Patterns:** Look for major chart patterns (e.g., Head and Shoulders, Triangles, Double Tops/Bottoms).\<newline>'',
      ''          * **Candlestick Patterns:** Identify influential recent candlestick patterns (e.g., Engulfing, Hammer, Doji) near key levels.\<newline>'',
      ''      3.  **Fundamental/Contextual Analysis:** Integrate the user's additional context. How does this news or geopolitical situation likely impact the sentiment for this asset?\<newline>'',
      ''      4.  **Synthesis:** Combine technical and fundamental findings. Are they in confluence or divergence? Formulate the most probable market direction. Identify a potential safe price for execution based on your analysis.\<newline>'',
      ''\<newline>'',
      ''      **OUTPUT REQUIREMENT:**\<newline>'',
      ''      After performing the full analysis, you MUST format your final conclusion into a single, clean JSON object. Do not include any text or markdown before or after the JSON object.\<newline>'',
      ''\<newline>'',
      ''      **JSON STRUCTURE:**\<newline>'',
      ''      {\<newline>'',
      ''        "direction": "Provide one word: 'Bullish', 'Bearish', or 'Sideways/Neutral'.",\<newline>'',
      ''        "rationale": "Provide a concise but comprehensive rationale for your direction. Mention the strongest technical and fundamental factors from your analysis (e.g., 'A bearish engulfing candle at a major resistance level, combined with negative inflation data, suggests a high probability of a downward move.'). Also, mention a potential safe price for execution.",\<newline>'',
      ''        "support": "State the most immediate and significant support level as a price or price range.",\<newline>'',
      ''        "resistance": "State the most immediate and significant resistance level as a price or price range.",\<newline>'',
      ''        "riskWarning": "Provide a standard risk warning about market volatility and the nature of analysis as non-financial advice."\<newline>'',
      ''      }\<newline>'',
      ''\<newline>'',
      ''      '',
      languagePrompt',
      ''\<newline>'',
      ''    '']\<close>

text \<open>The catch block of the inner \<open>try\<close>: the placeholder record.\<close>

definition fallback :: "string option \<Rightarrow> string \<Rightarrow> json" where
  "fallback outputLanguage geminiResponseText =
     (let fallbackMessage =
            (if outputLanguage = Some ''id''
             then ''Gagal mem-parse analisis dari AI. Respon mentah: ''
             else ''Failed to parse analysis from AI. Raw response: '');
          fallbackRiskWarning =
            (if outputLanguage = Some ''id''
             then ''Selalu berhati-hati. Analisis AI hanya untuk tujuan informasi.''
             else ''Always exercise caution. AI analysis is for informational purposes only.'')
      in analysis_record
           (if outputLanguage = Some ''id'' then ''Tidak Pasti'' else ''Uncertain'')
           (fallbackMessage @ geminiResponseText)
           ''N/A''
           ''N/A''
           fallbackRiskWarning)"

text \<open>The inner \<open>try\<close>/\<open>catch\<close>: it never throws.\<close>

definition parse_analysis :: "world \<Rightarrow> string option \<Rightarrow> string \<Rightarrow> event list \<times> json" where
  "parse_analysis w outputLanguage geminiResponseText =
     (case JSON_parse w geminiResponseText of
        Inr analysisOutput \<Rightarrow> ([], analysisOutput)
      | Inl parseError \<Rightarrow>
          ([ConsoleError ''Failed to parse Gemini's JSON response, sending fallback text:'' parseError],
           fallback outputLanguage geminiResponseText))"

text \<open>The argument of \<open>model.generateContent\<close>: lines 49 to 105.\<close>

definition model_request :: "world \<Rightarrow> fields \<Rightarrow> uploaded_file \<Rightarrow> buffer \<Rightarrow> generate_request" where
  "model_request w fields' imageFile imageBuffer =
     (let imagePart = fileToGenerativePart w imageBuffer (mimetype imageFile);
          assetType = first_or fields' ''assetType'' ''this asset'';
          timeframe = first_or fields' ''timeframe'' ''this timeframe'';
          additionalNotes = first_or fields' ''additionalNotes'' [];
          outputLanguage = first_or fields' ''outputLanguage'' ''en'';
          parts = [imagePart,
                   Text (detailedPrompt assetType timeframe additionalNotes
                           (languagePrompt outputLanguage))]
      in \<lparr>contents = [Content ''user'' parts],
           responseMimeType = Some ''application/json''\<rparr>)"

text \<open>From reading the upload to the response: lines 48 to 132.\<close>

definition analyze :: "world \<Rightarrow> fields \<Rightarrow> uploaded_file \<Rightarrow> response io" where
  "analyze w fields' imageFile =
     io_bind (io_effect (ReadFile (filepath imageFile)) (readFile w (filepath imageFile)))
       (\<lambda>imageBuffer.
     let outputLanguage = first_or fields' ''outputLanguage'' ''en'';
         req = model_request w fields' imageFile imageBuffer
     in io_bind (io_effect (GenerateContent ''gemini-1.5-pro'' req)
                   (generateContent w ''gemini-1.5-pro'' req))
       (\<lambda>result.
        io_bind (io_pure result)
       (\<lambda>geminiResponseText.
        case parse_analysis w outputLanguage geminiResponseText of
          (tr, analysisOutput) \<Rightarrow>
            (ConsoleLog ''Gemini Raw JSON Response:'' geminiResponseText # tr,
             Inr (status_json 200 (analysis_body analysisOutput))))))"

text \<open>The outer \<open>try\<close> block: lines 36 to 46, then \<open>analyze\<close>.\<close>

definition handler_try :: "world \<Rightarrow> request \<Rightarrow> response io" where
  "handler_try w request =
     io_bind (io_effect FormParse (form_parse w request))
       (\<lambda>(fields', files).
     case files ''image'' of
       None \<Rightarrow> io_return (status_json 400 (message_body ''No image file uploaded.''))
     | Some [] \<Rightarrow> io_return (status_json 400 (message_body ''No image file uploaded.''))
     | Some (imageFile # _) \<Rightarrow>
         io_bind (io_pure (startsWith (mimetype imageFile) ''image/''))
           (\<lambda>is_image.
         if \<not> is_image
         then io_return (status_json 400
                (message_body ''Invalid file type. Please upload an image.''))
         else analyze w fields' imageFile))"

definition errorMessage :: "request \<Rightarrow> js_error \<Rightarrow> string" where
  "errorMessage request error =
     (if and_includes (headers request ''accept-language'') ''id''
      then ''Gagal menganalisis grafik. Detail kesalahan: '' @ message error
      else ''Failed to analyze chart. Error details: '' @ message error)"

definition handler :: "world \<Rightarrow> request \<Rightarrow> event list \<times> response" where
  "handler w request =
     (if method' request \<noteq> ''POST''
      then ([], status_json 405 (message_body ''Method Not Allowed''))
      else if \<not> truthy (GEMINI_API_KEY w)
      then ([], status_json 500 (message_body ''Server is full, please try again later.''))
      else case handler_try w request of
             (tr, Inr sent) \<Rightarrow> (tr, sent)
           | (tr, Inl error) \<Rightarrow>
               (tr @ [ConsoleError ''Error in analyze-chart API:'' error],
                status_json 500 (message_body (errorMessage request error))))"

subsection \<open>The fenced block of the two other versions\<close>

text \<open>
  \<open>geminiResponseText.match(/```json\n([\s\S]*?)\n```/)\<close>. The result is the first capture
  group of the match (\<open>jsonMatch[1]\<close>), \<open>None\<close> when \<open>match\<close> returns \<open>null\<close>.
\<close>

definition fence_open :: string where
  \<open>fence_open = ''```json\<newline>''\<close>

definition fence_close :: string where
  \<open>fence_close = ''\<newline>```''\<close>

text \<open>
  The lazy group \<open>([\s\S]*?)\<close> followed by the rest \<open>p\<close> of the pattern: the group takes
  no character where \<open>p\<close> matches at once, and one character more each time it does not.
\<close>

fun lazy_group :: "string \<Rightarrow> string \<Rightarrow> string option" where
  "lazy_group p [] = (if prefix p [] then Some [] else None)"
| "lazy_group p (c # cs) =
     (if prefix p (c # cs) then Some [] else map_option ((#) c) (lazy_group p cs))"

text \<open>The pattern tried at the start of \<open>s\<close>.\<close>

definition match_here :: "string \<Rightarrow> string option" where
  "match_here s =
     (if prefix fence_open s then lazy_group fence_close (drop (length fence_open) s) else None)"

text \<open>\<open>match\<close> with no \<open>g\<close> flag: the pattern is tried at index 0, 1, 2, and so on.\<close>

fun json_match :: "string \<Rightarrow> string option" where
  "json_match [] = match_here []"
| "json_match (c # cs) =
     (case match_here (c # cs) of Some g \<Rightarrow> Some g | None \<Rightarrow> json_match cs)"

text \<open>
  The body of the inner \<open>try\<close>: \<open>jsonMatch && jsonMatch[1]\<close> is falsy when there is no
  match and when the group is the empty string.
\<close>

definition parse_input :: "string \<Rightarrow> string" where
  "parse_input geminiResponseText =
     (case json_match geminiResponseText of
        None \<Rightarrow> geminiResponseText
      | Some g \<Rightarrow> if g \<noteq> [] then g else geminiResponseText)"

definition extract_json :: "world \<Rightarrow> string \<Rightarrow> js_error + json" where
  "extract_json w geminiResponseText =
     (case json_match geminiResponseText of
        None \<Rightarrow> JSON_parse w geminiResponseText
      | Some g \<Rightarrow> if g \<noteq> [] then JSON_parse w g else JSON_parse w geminiResponseText)"

subsection \<open>The "fundamental" handler: the first document of \<open>src/unnamed/part_000\<close>\<close>

definition languagePrompt_fundamental :: "string option \<Rightarrow> string" where
  "languagePrompt_fundamental outputLanguage =
     (if outputLanguage = Some ''id''
      then ''Berikan jawaban dalam Bahasa Indonesia.''
      else ''Provide the answer in English.'')"

definition parts_fundamental :: "part \<Rightarrow> string option \<Rightarrow> string option \<Rightarrow> string \<Rightarrow> part list" where
  \<open>parts_fundamental imagePart assetType additionalNotes languagePrompt' =
     [imagePart,
      Text ''This fundamental prediction. '',
      Text (''It's for '' @ interpolate assetType @ '' asset.''),
      Text ''Provide a clear prediction of the market's likely direction (e.g., Good, Bad, Neutral) and a brief rationale.'']
     @ (if truthy additionalNotes
        then [Text (''Additional context from user: "'' @ interpolate additionalNotes @
                    ''". Incorporate this into your analysis if relevant.'')]
        else [])
     @ [Text (''Focus on the fundamentals that will be predicted and focus on providing predictions on where the price will move when the data is published and what steps are the safest to take to avoid being liquidated. Please provide a complete and detailed prediction of the market price position. Provide output in this structured JSON-like format: { "direction": "string", "rationale": "string", "support": "string", "resistance": "string", "riskWarning": "string" }. ''
              @ languagePrompt')]\<close>

definition fallback_fundamental :: "string option \<Rightarrow> string \<Rightarrow> json" where
  "fallback_fundamental outputLanguage geminiResponseText =
     (let fallbackMessage =
            (if outputLanguage = Some ''id''
             then ''Gagal mem-parse analisis rinci dari AI. Respon mentah: ''
             else ''Failed to parse detailed analysis from AI. Raw response: '');
          fallbackRiskWarning =
            (if outputLanguage = Some ''id''
             then ''Selalu berhati-hati. Analisis AI hanya untuk tujuan informasi.''
             else ''Always exercise caution. AI analysis is for informational purposes only.'')
      in analysis_record
           (if outputLanguage = Some ''id'' then ''Tidak Pasti'' else ''Uncertain'')
           (fallbackMessage @ geminiResponseText)
           ''N/A''
           ''N/A''
           fallbackRiskWarning)"

definition parse_analysis_fundamental ::
    "world \<Rightarrow> string option \<Rightarrow> string \<Rightarrow> event list \<times> json" where
  "parse_analysis_fundamental w outputLanguage geminiResponseText =
     (case extract_json w geminiResponseText of
        Inr analysisOutput \<Rightarrow> ([], analysisOutput)
      | Inl parseError \<Rightarrow>
          ([ConsoleError ''Failed to parse Gemini's JSON response, sending fallback text:'' parseError],
           fallback_fundamental outputLanguage geminiResponseText))"

definition model_request_fundamental ::
    "world \<Rightarrow> fields \<Rightarrow> uploaded_file \<Rightarrow> buffer \<Rightarrow> generate_request" where
  "model_request_fundamental w fields' imageFile imageBuffer =
     (let imagePart = fileToGenerativePart w imageBuffer (mimetype imageFile);
          assetType = first_or fields' ''assetType'' [];
          timeframe = first_or fields' ''timeframe'' [];
          additionalNotes = first_or fields' ''additionalNotes'' [];
          outputLanguage = first_or fields' ''outputLanguage'' ''en'';
          parts = parts_fundamental imagePart assetType additionalNotes
                    (languagePrompt_fundamental outputLanguage)
      in \<lparr>contents = [Content ''user'' parts], responseMimeType = None\<rparr>)"

definition analyze_fundamental :: "world \<Rightarrow> fields \<Rightarrow> uploaded_file \<Rightarrow> response io" where
  "analyze_fundamental w fields' imageFile =
     io_bind (io_effect (ReadFile (filepath imageFile)) (readFile w (filepath imageFile)))
       (\<lambda>imageBuffer.
     let outputLanguage = first_or fields' ''outputLanguage'' ''en'';
         req = model_request_fundamental w fields' imageFile imageBuffer
     in io_bind (io_effect (GenerateContent ''gemini-2.5-pro'' req)
                   (generateContent w ''gemini-2.5-pro'' req))
       (\<lambda>result.
        io_bind (io_pure result)
       (\<lambda>geminiResponseText.
        case parse_analysis_fundamental w outputLanguage geminiResponseText of
          (tr, analysisOutput) \<Rightarrow>
            (ConsoleLog ''Gemini Raw Response:'' geminiResponseText # tr,
             Inr (status_json 200 (analysis_body analysisOutput))))))"

definition handler_try_fundamental :: "world \<Rightarrow> request \<Rightarrow> response io" where
  "handler_try_fundamental w request =
     io_bind (io_effect FormParse (form_parse w request))
       (\<lambda>(fields', files).
     case files ''image'' of
       None \<Rightarrow> io_return (status_json 400 (message_body ''No image file uploaded.''))
     | Some [] \<Rightarrow> io_return (status_json 400 (message_body ''No image file uploaded.''))
     | Some (imageFile # _) \<Rightarrow>
         io_bind (io_pure (startsWith (mimetype imageFile) ''image/''))
           (\<lambda>is_image.
         if \<not> is_image
         then io_return (status_json 400
                (message_body ''Invalid file type. Please upload an image.''))
         else analyze_fundamental w fields' imageFile))"

definition handler_fundamental :: "world \<Rightarrow> request \<Rightarrow> event list \<times> response" where
  "handler_fundamental w request =
     (if method' request \<noteq> ''POST''
      then ([], status_json 405 (message_body ''Method Not Allowed''))
      else if \<not> truthy (GEMINI_API_KEY w)
      then ([], status_json 500 (message_body ''Server is full, please try again later.''))
      else case handler_try_fundamental w request of
             (tr, Inr sent) \<Rightarrow> (tr, sent)
           | (tr, Inl error) \<Rightarrow>
               (tr @ [ConsoleError ''Error in analyze-chart API:'' error],
                status_json 500 (message_body (errorMessage request error))))"

subsection \<open>The "flash" handler: the second document of \<open>src/unnamed/part_000\<close>\<close>

text \<open>
  The \<open>busboy\<close> preamble registers callbacks on a parser that is never fed, so all it can
  do is throw: \<open>require\<close> when the module does not load, the constructor when the
  request's headers are not those of a form. This version takes \<open>formidable\<close> from
  \<open>require\<close> and calls what it got, \<open>formidable({})\<close>: the call throws when the module's
  export is not a function, so it is a step of its own (the field \<open>formidable\<close> of the
  world). The two other versions import the function itself.
\<close>

definition parts_flash :: "part \<Rightarrow> string option \<Rightarrow> string option \<Rightarrow> string option \<Rightarrow> part list" where
  \<open>parts_flash imagePart assetType timeframe additionalNotes =
     [imagePart,
      Text ''Analyze this market chart. '',
      Text (''It's for '' @ interpolate assetType @ '' with a '' @ interpolate timeframe @
            '' timeframe.''),
      Text ''Provide a clear prediction of the market's likely direction (e.g., Bullish, Bearish, Sideways) and a brief rationale.'']
     @ (if truthy additionalNotes
        then [Text (''Additional context from user: "'' @ interpolate additionalNotes @
                    ''". Incorporate this into your analysis if relevant.'')]
        else [])
     @ [Text ''Focus on key technical patterns, support/resistance levels, and overall trend. Please also include a short risk warning. Provide output in this structured JSON-like format: { "direction": "string", "rationale": "string", "support": "string", "resistance": "string", "riskWarning": "string" }'']\<close>

definition fallback_flash :: "string \<Rightarrow> json" where
  "fallback_flash geminiResponseText =
     analysis_record
       ''Uncertain''
       (''Could not parse detailed analysis from AI. Raw response: '' @ geminiResponseText)
       ''N/A''
       ''N/A''
       ''Always exercise caution. AI analysis is for informational purposes only.''"

definition parse_analysis_flash :: "world \<Rightarrow> string \<Rightarrow> event list \<times> json" where
  "parse_analysis_flash w geminiResponseText =
     (case extract_json w geminiResponseText of
        Inr analysisOutput \<Rightarrow> ([], analysisOutput)
      | Inl parseError \<Rightarrow>
          ([ConsoleError ''Failed to parse Gemini's JSON response, sending raw text:'' parseError],
           fallback_flash geminiResponseText))"

definition model_request_flash ::
    "world \<Rightarrow> fields \<Rightarrow> uploaded_file \<Rightarrow> buffer \<Rightarrow> generate_request" where
  "model_request_flash w fields' imageFile imageBuffer =
     (let imagePart = fileToGenerativePart w imageBuffer (mimetype imageFile);
          assetType = first_or fields' ''assetType'' [];
          timeframe = first_or fields' ''timeframe'' [];
          additionalNotes = first_or fields' ''additionalNotes'' [];
          parts = parts_flash imagePart assetType timeframe additionalNotes
      in \<lparr>contents = [Content ''user'' parts], responseMimeType = None\<rparr>)"

definition analyze_flash :: "world \<Rightarrow> fields \<Rightarrow> uploaded_file \<Rightarrow> response io" where
  "analyze_flash w fields' imageFile =
     io_bind (io_pure (require w ''fs/promises''))
       (\<lambda>fs.
     io_bind (io_effect (ReadFile (filepath imageFile)) (readFile w (filepath imageFile)))
       (\<lambda>imageBuffer.
     let req = model_request_flash w fields' imageFile imageBuffer
     in io_bind (io_effect (GenerateContent ''gemini-1.5-flash-latest'' req)
                   (generateContent w ''gemini-1.5-flash-latest'' req))
       (\<lambda>result.
        io_bind (io_pure result)
       (\<lambda>geminiResponseText.
        case parse_analysis_flash w geminiResponseText of
          (tr, analysisOutput) \<Rightarrow>
            (ConsoleLog ''Gemini Raw Response:'' geminiResponseText # tr,
             Inr (status_json 200 (analysis_body analysisOutput)))))))"

definition handler_try_flash :: "world \<Rightarrow> request \<Rightarrow> response io" where
  "handler_try_flash w request =
     io_bind (io_pure (require w ''busboy''))
       (\<lambda>busboy'.
     io_bind (io_pure (busboy w (headers request)))
       (\<lambda>bb.
     io_bind (io_pure (require w ''formidable''))
       (\<lambda>formidable'.
     io_bind (io_pure (formidable w))
       (\<lambda>form.
     io_bind (io_effect FormParse (form_parse w request))
       (\<lambda>(fields', files).
     case files ''image'' of
       None \<Rightarrow> io_return (status_json 400 (message_body ''No image file uploaded.''))
     | Some [] \<Rightarrow> io_return (status_json 400 (message_body ''No image file uploaded.''))
     | Some (imageFile # _) \<Rightarrow>
         io_bind (io_pure (startsWith (mimetype imageFile) ''image/''))
           (\<lambda>is_image.
         if \<not> is_image
         then io_return (status_json 400
                (message_body ''Invalid file type. Please upload an image.''))
         else analyze_flash w fields' imageFile))))))"

definition handler_flash :: "world \<Rightarrow> request \<Rightarrow> event list \<times> response" where
  "handler_flash w request =
     (if method' request \<noteq> ''POST''
      then ([], status_json 405 (message_body ''Method Not Allowed''))
      else if \<not> truthy (GEMINI_API_KEY w)
      then ([], status_json 500
              (message_body ''GEMINI_API_KEY environment variable is not configured.''))
      else case handler_try_flash w request of
             (tr, Inr sent) \<Rightarrow> (tr, sent)
           | (tr, Inl error) \<Rightarrow>
               (tr @ [ConsoleError ''Error in analyze-chart API:'' error],
                status_json 500
                  (message_body (''Failed to analyze chart. Please check the image and try again. Error: ''
                                 @ message error))))"

subsection \<open>What a run is observed by\<close>

text \<open>The outbound calls to the model provider among the effects of a run.\<close>

fun is_model_call :: "event \<Rightarrow> bool" where
  "is_model_call (GenerateContent model' req) = True"
| "is_model_call ev = False"

definition model_calls :: "event list \<Rightarrow> nat" where
  "model_calls tr = length (filter is_model_call tr)"

text \<open>
  The request passes the method, credential and upload validations of the handler: it is
  a POST, the key is set, the form parses, and the first \<open>image\<close> file has an image type.
\<close>

definition passes_validations :: "world \<Rightarrow> request \<Rightarrow> bool" where
  "passes_validations w request =
     (method' request = ''POST'' \<and> truthy (GEMINI_API_KEY w) \<and>
      (case form_parse w request of
         Inl e \<Rightarrow> False
       | Inr (fields', files) \<Rightarrow>
           (case files ''image'' of
              None \<Rightarrow> False
            | Some [] \<Rightarrow> False
            | Some (imageFile # _) \<Rightarrow>
                (case mimetype imageFile of Str mt \<Rightarrow> prefix ''image/'' mt | _ \<Rightarrow> False))))"

text \<open>The read of the first \<open>image\<close> file of the parsed form succeeds.\<close>

definition upload_read :: "world \<Rightarrow> request \<Rightarrow> bool" where
  "upload_read w request =
     (case form_parse w request of
        Inl e \<Rightarrow> False
      | Inr (fields', files) \<Rightarrow>
          (case files ''image'' of
             None \<Rightarrow> False
           | Some [] \<Rightarrow> False
           | Some (imageFile # _) \<Rightarrow>
               (case readFile w (filepath imageFile) of Inl e \<Rightarrow> False | Inr b \<Rightarrow> True)))"






text \<open>
  The failure of a run other than a refused upload: the first step on the handler's path
  that throws. In order, these are the multipart parser, the member access on the MIME
  type, the read of the uploaded file, the call to the provider (a network or provider
  error) and the reading of the reply's text. The model's name and the request sent to it
  are those of the version.
\<close>

definition failure ::
    "string \<Rightarrow> (world \<Rightarrow> fields \<Rightarrow> uploaded_file \<Rightarrow> buffer \<Rightarrow> generate_request) \<Rightarrow>
     world \<Rightarrow> request \<Rightarrow> js_error option" where
  "failure model' build w request =
     (case form_parse w request of
        Inl e \<Rightarrow> Some e
      | Inr (fields', files) \<Rightarrow>
          (case files ''image'' of
             None \<Rightarrow> None
           | Some [] \<Rightarrow> None
           | Some (imageFile # _) \<Rightarrow>
               (case startsWith (mimetype imageFile) ''image/'' of
                  Inl e \<Rightarrow> Some e
                | Inr is_image \<Rightarrow>
                    if \<not> is_image then None
                    else (case readFile w (filepath imageFile) of
                            Inl e \<Rightarrow> Some e
                          | Inr imageBuffer \<Rightarrow>
                              (case generateContent w model'
                                      (build w fields' imageFile imageBuffer) of
                                 Inl e \<Rightarrow> Some e
                               | Inr (Inl e) \<Rightarrow> Some e
                               | Inr (Inr reply) \<Rightarrow> None)))))"

text \<open>The same for the "flash" version, whose path also loads three modules, builds a
  \<open>busboy\<close> parser and calls what the \<open>formidable\<close> module exports.\<close>

definition failure_flash :: "world \<Rightarrow> request \<Rightarrow> js_error option" where
  "failure_flash w request =
     (case require w ''busboy'' of
        Inl e \<Rightarrow> Some e
      | Inr u1 \<Rightarrow>
     (case busboy w (headers request) of
        Inl e \<Rightarrow> Some e
      | Inr u2 \<Rightarrow>
     (case require w ''formidable'' of
        Inl e \<Rightarrow> Some e
      | Inr u3 \<Rightarrow>
     (case formidable w of
        Inl e \<Rightarrow> Some e
      | Inr form \<Rightarrow>
     (case form_parse w request of
        Inl e \<Rightarrow> Some e
      | Inr (fields', files) \<Rightarrow>
          (case files ''image'' of
             None \<Rightarrow> None
           | Some [] \<Rightarrow> None
           | Some (imageFile # _) \<Rightarrow>
               (case startsWith (mimetype imageFile) ''image/'' of
                  Inl e \<Rightarrow> Some e
                | Inr is_image \<Rightarrow>
                    if \<not> is_image then None
                    else (case require w ''fs/promises'' of
                            Inl e \<Rightarrow> Some e
                          | Inr u4 \<Rightarrow>
                         (case readFile w (filepath imageFile) of
                            Inl e \<Rightarrow> Some e
                          | Inr imageBuffer \<Rightarrow>
                              (case generateContent w ''gemini-1.5-flash-latest''
                                      (model_request_flash w fields' imageFile imageBuffer) of
                                 Inl e \<Rightarrow> Some e
                               | Inr (Inl e) \<Rightarrow> Some e
                               | Inr (Inr reply) \<Rightarrow> None))))))))))"

text \<open>
  The reply holds a fenced block: an opening fence, a content, a closing fence. The
  first block starts at the leftmost opening fence and ends at the nearest closing one.
\<close>

definition json_block :: "string \<Rightarrow> string \<Rightarrow> string \<Rightarrow> string \<Rightarrow> bool" where
  "json_block reply before inside after \<longleftrightarrow>
     reply = before @ fence_open @ inside @ fence_close @ after"

definition has_json_block :: "string \<Rightarrow> bool" where
  "has_json_block reply \<longleftrightarrow> (\<exists>before inside after. json_block reply before inside after)"

definition first_json_block :: "string \<Rightarrow> string \<Rightarrow> bool" where
  "first_json_block reply inside \<longleftrightarrow>
     (\<exists>before after. json_block reply before inside after \<and>
        (\<forall>before' inside' after'. json_block reply before' inside' after' \<longrightarrow>
           length before < length before' \<or>
           (length before = length before' \<and> length inside \<le> length inside')))"

subsection \<open>A concrete request and world\<close>

definition demo_file :: uploaded_file where
  "demo_file = \<lparr>filepath = ''/tmp/upload_1'', mimetype = Str ''image/png''\<rparr>"

definition demo_fields :: fields where
  "demo_fields = [''assetType'' \<mapsto> [''XAU/USD''], ''outputLanguage'' \<mapsto> [''id'']]"

definition demo_files :: files where
  "demo_files = [''image'' \<mapsto> [demo_file]]"

definition demo_request :: request where
  "demo_request =
     \<lparr>method' = ''POST'', headers = [''accept-language'' \<mapsto> ''id-ID,id;q=0.9''], body = []\<rparr>"

definition demo_reply :: string where
  \<open>demo_reply = ''{"direction":"Bullish","rationale":"Higher lows","support":"2300","resistance":"2350","riskWarning":"Not advice"}''\<close>

text \<open>
  A stand-in for \<open>JSON.parse\<close>. On the texts used below (the record above, the empty
  array, the empty text and texts that are no JSON) it parses, or throws, as \<open>JSON.parse\<close>
  does; the texts of its errors are shortened.
\<close>

definition demo_parse :: "string \<Rightarrow> js_error + json" where
  "demo_parse s =
     (if s = demo_reply
      then Inr (analysis_record ''Bullish'' ''Higher lows'' ''2300'' ''2350'' ''Not advice'')
      else if s = ''[]'' then Inr (JArray [])
      else if s = [] then Inl (Error ''Unexpected end of JSON input'')
      else Inl (Error ''Unexpected token''))"

text \<open>
  A world in which every step of \<open>handler\<close> and \<open>handler_fundamental\<close> succeeds. What
  its \<open>formidable\<close> module exports is not a function, so \<open>handler_flash\<close> stops at
  \<open>formidable({})\<close>.
\<close>

definition demo_world :: world where
  "demo_world =
     \<lparr>GEMINI_API_KEY = Some ''secret'',
      form_parse = (\<lambda>request. Inr (demo_fields, demo_files)),
      readFile = (\<lambda>path. Inr [137, 80, 78, 71]),
      toString_base64 = (\<lambda>b. ''iVBORw==''),
      generateContent = (\<lambda>model' req. Inr (Inr demo_reply)),
      JSON_parse = demo_parse,
      require = (\<lambda>name. Inr ()),
      busboy = (\<lambda>h. Inr ()),
      formidable = Inl (Error ''formidable is not a function'')\<rparr>"


definition world_offline :: world where
  "world_offline = demo_world\<lparr>generateContent := (\<lambda>model' req. Inl (Error ''fetch failed''))\<rparr>"

definition world_unread :: world where
  "world_unread =
     demo_world\<lparr>readFile := (\<lambda>path. Inl (Error ''ENOENT: no such file or directory''))\<rparr>"

text \<open>Two replies with a fenced block: one around the empty array, one around nothing.\<close>

definition reply_fenced :: string where
  \<open>reply_fenced = ''Here is the analysis:\<newline>```json\<newline>[]\<newline>```\<newline>Good luck.''\<close>

definition reply_empty_fence :: string where
  \<open>reply_empty_fence = ''```json\<newline>\<newline>```''\<close>





definition request_english :: request where
  "request_english = demo_request\<lparr>headers := [''accept-language'' \<mapsto> ''en-US,en;q=0.9'']\<rparr>"

section \<open>Properties of the handler\<close>

subsection \<open>Stepping through the \<open>try\<close> block\<close>

lemma io_bind_Inl: "io_bind (tr, Inl e) f = (tr, Inl e)"
  by (simp add: io_bind_def)

lemma io_bind_Inr: "io_bind (tr, Inr x) f = (tr @ fst (f x), snd (f x))"
  by (simp add: io_bind_def split: prod.splits)

lemmas io_simps = io_bind_Inl io_bind_Inr io_effect_def io_pure_def io_return_def

lemma handler_try_no_image:
  assumes "form_parse w request = Inr (fields', files)"
    and "files ''image'' = None \<or> files ''image'' = Some []"
  shows "handler_try w request =
           ([FormParse], Inr (status_json 400 (message_body ''No image file uploaded.'')))"
    and "handler_try_fundamental w request =
           ([FormParse], Inr (status_json 400 (message_body ''No image file uploaded.'')))"
  using assms by (auto simp add: handler_try_def handler_try_fundamental_def io_simps)

lemma handler_try_image:
  assumes "form_parse w request = Inr (fields', files)"
    and "files ''image'' = Some (imageFile # others)"
  shows "handler_try w request =
     (case startsWith (mimetype imageFile) ''image/'' of
        Inl e \<Rightarrow> ([FormParse], Inl e)
      | Inr is_image \<Rightarrow>
          if \<not> is_image
          then ([FormParse],
                Inr (status_json 400 (message_body ''Invalid file type. Please upload an image.'')))
          else (FormParse # fst (analyze w fields' imageFile),
                snd (analyze w fields' imageFile)))"
    and "handler_try_fundamental w request =
     (case startsWith (mimetype imageFile) ''image/'' of
        Inl e \<Rightarrow> ([FormParse], Inl e)
      | Inr is_image \<Rightarrow>
          if \<not> is_image
          then ([FormParse],
                Inr (status_json 400 (message_body ''Invalid file type. Please upload an image.'')))
          else (FormParse # fst (analyze_fundamental w fields' imageFile),
                snd (analyze_fundamental w fields' imageFile)))"
  using assms
  by (auto simp add: handler_try_def handler_try_fundamental_def io_simps split: sum.splits)

lemma analyze_cases:
  "analyze w fields' imageFile =
     (case readFile w (filepath imageFile) of
        Inl e \<Rightarrow> ([ReadFile (filepath imageFile)], Inl e)
      | Inr imageBuffer \<Rightarrow>
          (case generateContent w ''gemini-1.5-pro'' (model_request w fields' imageFile imageBuffer) of
             Inl e \<Rightarrow>
               ([ReadFile (filepath imageFile),
                 GenerateContent ''gemini-1.5-pro'' (model_request w fields' imageFile imageBuffer)], Inl e)
           | Inr (Inl e) \<Rightarrow>
               ([ReadFile (filepath imageFile),
                 GenerateContent ''gemini-1.5-pro'' (model_request w fields' imageFile imageBuffer)], Inl e)
           | Inr (Inr reply) \<Rightarrow>
               ([ReadFile (filepath imageFile),
                 GenerateContent ''gemini-1.5-pro'' (model_request w fields' imageFile imageBuffer),
                 ConsoleLog ''Gemini Raw JSON Response:'' reply]
                @ fst (parse_analysis w (first_or fields' ''outputLanguage'' ''en'') reply),
                Inr (status_json 200 (analysis_body
                   (snd (parse_analysis w (first_or fields' ''outputLanguage'' ''en'') reply)))))))"
  by (simp add: analyze_def io_simps Let_def split: sum.splits prod.splits)

lemma analyze_fundamental_cases:
  "analyze_fundamental w fields' imageFile =
     (case readFile w (filepath imageFile) of
        Inl e \<Rightarrow> ([ReadFile (filepath imageFile)], Inl e)
      | Inr imageBuffer \<Rightarrow>
          (case generateContent w ''gemini-2.5-pro'' (model_request_fundamental w fields' imageFile imageBuffer) of
             Inl e \<Rightarrow>
               ([ReadFile (filepath imageFile),
                 GenerateContent ''gemini-2.5-pro'' (model_request_fundamental w fields' imageFile imageBuffer)], Inl e)
           | Inr (Inl e) \<Rightarrow>
               ([ReadFile (filepath imageFile),
                 GenerateContent ''gemini-2.5-pro'' (model_request_fundamental w fields' imageFile imageBuffer)], Inl e)
           | Inr (Inr reply) \<Rightarrow>
               ([ReadFile (filepath imageFile),
                 GenerateContent ''gemini-2.5-pro'' (model_request_fundamental w fields' imageFile imageBuffer),
                 ConsoleLog ''Gemini Raw Response:'' reply]
                @ fst (parse_analysis_fundamental w (first_or fields' ''outputLanguage'' ''en'') reply),
                Inr (status_json 200 (analysis_body
                   (snd (parse_analysis_fundamental w (first_or fields' ''outputLanguage'' ''en'') reply)))))))"
  by (simp add: analyze_fundamental_def io_simps Let_def split: sum.splits prod.splits)

lemma analyze_flash_cases:
  "analyze_flash w fields' imageFile =
     (case require w ''fs/promises'' of
        Inl e \<Rightarrow> ([], Inl e)
      | Inr u \<Rightarrow>
     (case readFile w (filepath imageFile) of
        Inl e \<Rightarrow> ([ReadFile (filepath imageFile)], Inl e)
      | Inr imageBuffer \<Rightarrow>
          (case generateContent w ''gemini-1.5-flash-latest'' (model_request_flash w fields' imageFile imageBuffer) of
             Inl e \<Rightarrow>
               ([ReadFile (filepath imageFile),
                 GenerateContent ''gemini-1.5-flash-latest'' (model_request_flash w fields' imageFile imageBuffer)], Inl e)
           | Inr (Inl e) \<Rightarrow>
               ([ReadFile (filepath imageFile),
                 GenerateContent ''gemini-1.5-flash-latest'' (model_request_flash w fields' imageFile imageBuffer)], Inl e)
           | Inr (Inr reply) \<Rightarrow>
               ([ReadFile (filepath imageFile),
                 GenerateContent ''gemini-1.5-flash-latest'' (model_request_flash w fields' imageFile imageBuffer),
                 ConsoleLog ''Gemini Raw Response:'' reply]
                @ fst (parse_analysis_flash w reply),
                Inr (status_json 200 (analysis_body (snd (parse_analysis_flash w reply))))))))"
  by (simp add: analyze_flash_def io_simps Let_def split: sum.splits prod.splits)

lemma handler_try_cases:
  "handler_try w request =
     (case form_parse w request of
        Inl e \<Rightarrow> ([FormParse], Inl e)
      | Inr (fields', files) \<Rightarrow>
          (case files ''image'' of
             None \<Rightarrow> ([FormParse], Inr (status_json 400 (message_body ''No image file uploaded.'')))
           | Some [] \<Rightarrow> ([FormParse], Inr (status_json 400 (message_body ''No image file uploaded.'')))
           | Some (imageFile # _) \<Rightarrow>
               (case startsWith (mimetype imageFile) ''image/'' of
                  Inl e \<Rightarrow> ([FormParse], Inl e)
                | Inr is_image \<Rightarrow>
                    if \<not> is_image
                    then ([FormParse], Inr (status_json 400
                            (message_body ''Invalid file type. Please upload an image.'')))
                    else (FormParse # fst (analyze w fields' imageFile),
                          snd (analyze w fields' imageFile)))))"
  by (simp add: handler_try_def io_bind_def io_effect_def io_pure_def io_return_def
      split: sum.splits option.splits list.splits prod.splits)

lemma handler_try_fundamental_cases:
  "handler_try_fundamental w request =
     (case form_parse w request of
        Inl e \<Rightarrow> ([FormParse], Inl e)
      | Inr (fields', files) \<Rightarrow>
          (case files ''image'' of
             None \<Rightarrow> ([FormParse], Inr (status_json 400 (message_body ''No image file uploaded.'')))
           | Some [] \<Rightarrow> ([FormParse], Inr (status_json 400 (message_body ''No image file uploaded.'')))
           | Some (imageFile # _) \<Rightarrow>
               (case startsWith (mimetype imageFile) ''image/'' of
                  Inl e \<Rightarrow> ([FormParse], Inl e)
                | Inr is_image \<Rightarrow>
                    if \<not> is_image
                    then ([FormParse], Inr (status_json 400
                            (message_body ''Invalid file type. Please upload an image.'')))
                    else (FormParse # fst (analyze_fundamental w fields' imageFile),
                          snd (analyze_fundamental w fields' imageFile)))))"
  by (simp add: handler_try_fundamental_def io_bind_def io_effect_def io_pure_def io_return_def
      split: sum.splits option.splits list.splits prod.splits)

lemma handler_try_failure:
  "failure ''gemini-1.5-pro'' model_request w request = Some error \<Longrightarrow>
     snd (handler_try w request) = Inl error"
  by (auto simp add: failure_def handler_try_def analyze_cases io_simps
      split: sum.splits option.splits list.splits if_splits prod.splits)

lemma handler_try_fundamental_failure:
  "failure ''gemini-2.5-pro'' model_request_fundamental w request = Some error \<Longrightarrow>
     snd (handler_try_fundamental w request) = Inl error"
  by (auto simp add: failure_def handler_try_fundamental_def analyze_fundamental_cases io_simps
      split: sum.splits option.splits list.splits if_splits prod.splits)

lemma handler_try_flash_failure:
  "failure_flash w request = Some error \<Longrightarrow>
     snd (handler_try_flash w request) = Inl error"
  by (auto simp add: failure_flash_def handler_try_flash_def analyze_flash_cases io_simps
      split: sum.splits option.splits list.splits if_splits prod.splits)








lemma model_calls_simps:
  "model_calls [] = 0"
  "model_calls (GenerateContent m r # tr) = Suc (model_calls tr)"
  "model_calls (FormParse # tr) = model_calls tr"
  "model_calls (ReadFile p # tr) = model_calls tr"
  "model_calls (ConsoleLog l t # tr) = model_calls tr"
  "model_calls (ConsoleError l e # tr) = model_calls tr"
  "model_calls (tr @ tr') = model_calls tr + model_calls tr'"
  by (simp_all add: model_calls_def)

lemma parse_analysis_calls:
  "model_calls (fst (parse_analysis w l t)) = 0"
  "model_calls (fst (parse_analysis_fundamental w l t)) = 0"
  "model_calls (fst (parse_analysis_flash w t)) = 0"
  by (simp_all add: parse_analysis_def parse_analysis_fundamental_def parse_analysis_flash_def
      model_calls_simps split: sum.splits)

lemma handler_try_calls:
  "model_calls (fst (handler_try w request)) =
     (case form_parse w request of
         Inl e \<Rightarrow> 0
       | Inr (fields', files) \<Rightarrow>
           (case files ''image'' of
              None \<Rightarrow> 0
            | Some [] \<Rightarrow> 0
            | Some (imageFile # _) \<Rightarrow>
                (case mimetype imageFile of
                   Str mt \<Rightarrow> if prefix ''image/'' mt then
                      (case readFile w (filepath imageFile) of Inl e \<Rightarrow> 0 | Inr b \<Rightarrow> 1) else 0
                 | _ \<Rightarrow> 0)))"
  by (simp add: handler_try_cases analyze_cases model_calls_simps parse_analysis_calls startsWith_def
      split: sum.splits option.splits list.splits prod.splits nullable.splits)

lemma handler_try_flash_calls: "model_calls (fst (handler_try_flash w request)) \<le> 1"
  by (simp add: handler_try_flash_def analyze_flash_cases io_bind_def io_effect_def io_pure_def
      io_return_def model_calls_simps parse_analysis_calls
      split: sum.splits option.splits list.splits prod.splits)

lemma handler_calls:
  "model_calls (fst (handler w request)) =
     (if passes_validations w request \<and> upload_read w request then 1 else 0)"
  using handler_try_calls [of w request]
  by (auto simp add: handler_def passes_validations_def upload_read_def model_calls_simps
      split: sum.splits option.splits list.splits prod.splits nullable.splits if_splits)

lemma handler_flash_calls: "model_calls (fst (handler_flash w request)) \<le> 1"
  using handler_try_flash_calls [of w request]
  by (auto simp add: handler_flash_def model_calls_simps split: sum.splits prod.splits)


lemma handler_try_fundamental_calls:
  "model_calls (fst (handler_try_fundamental w request)) =
     (case form_parse w request of
         Inl e \<Rightarrow> 0
       | Inr (fields', files) \<Rightarrow>
           (case files ''image'' of
              None \<Rightarrow> 0
            | Some [] \<Rightarrow> 0
            | Some (imageFile # _) \<Rightarrow>
                (case mimetype imageFile of
                   Str mt \<Rightarrow> if prefix ''image/'' mt then
                      (case readFile w (filepath imageFile) of Inl e \<Rightarrow> 0 | Inr b \<Rightarrow> 1) else 0
                 | _ \<Rightarrow> 0)))"
  by (simp add: handler_try_fundamental_cases analyze_fundamental_cases model_calls_simps
      parse_analysis_calls startsWith_def
      split: sum.splits option.splits list.splits prod.splits nullable.splits)

lemma handler_fundamental_calls:
  "model_calls (fst (handler_fundamental w request)) =
     (if passes_validations w request \<and> upload_read w request then 1 else 0)"
  using handler_try_fundamental_calls [of w request]
  by (auto simp add: handler_fundamental_def passes_validations_def upload_read_def
      model_calls_simps
      split: sum.splits option.splits list.splits prod.splits nullable.splits if_splits)



subsection \<open>The first fenced block\<close>

text \<open>
  The pattern's match is the first block of the reply: \<open>json_match\<close> returns the content
  between the leftmost opening fence and the nearest closing fence after it, and \<open>None\<close>
  exactly when the reply holds no block.
\<close>

lemma fence_open_neq_Nil: "fence_open \<noteq> []"
  by (simp add: fence_open_def)

lemma lazy_group_sound:
  "lazy_group p s = Some c \<Longrightarrow> \<exists>a. s = c @ p @ a"
proof (induction s arbitrary: c)
  case Nil
  then show ?case by (simp split: if_splits)
next
  case (Cons x xs)
  show ?case
  proof (cases "prefix p (x # xs)")
    case True
    with Cons.prems have "c = []" by simp
    with True show ?thesis by (auto simp add: prefix_def)
  next
    case False
    with Cons.prems obtain c0 where c0: "lazy_group p xs = Some c0" "c = x # c0"
      by auto
    from Cons.IH [OF c0(1)] obtain a where "xs = c0 @ p @ a" ..
    with c0(2) show ?thesis by simp
  qed
qed

lemma lazy_group_least:
  "lazy_group p s = Some c \<Longrightarrow> s = c' @ p @ a' \<Longrightarrow> length c \<le> length c'"
proof (induction s arbitrary: c c')
  case Nil
  then show ?case by (simp split: if_splits)
next
  case (Cons x xs)
  show ?case
  proof (cases "prefix p (x # xs)")
    case True
    with Cons.prems(1) show ?thesis by simp
  next
    case False
    with Cons.prems(1) obtain c0 where c0: "lazy_group p xs = Some c0" "c = x # c0"
      by auto
    from False Cons.prems(2) have "c' \<noteq> []" by auto
    with Cons.prems(2) obtain c0' where c0': "c' = x # c0'" "xs = c0' @ p @ a'"
      by (cases c') auto
    from Cons.IH [OF c0(1) c0'(2)] c0(2) c0'(1) show ?thesis by simp
  qed
qed

lemma lazy_group_complete:
  "lazy_group p s = None \<Longrightarrow> s \<noteq> c' @ p @ a'"
proof (induction s arbitrary: c')
  case Nil
  then show ?case by (auto split: if_splits)
next
  case (Cons x xs)
  from Cons.prems have np: "\<not> prefix p (x # xs)" and n: "lazy_group p xs = None"
    by (auto split: if_splits)
  show ?case
  proof
    assume eq: "x # xs = c' @ p @ a'"
    with np have "c' \<noteq> []" by auto
    with eq obtain c0' where "c' = x # c0'" "xs = c0' @ p @ a'"
      by (cases c') auto
    with Cons.IH [OF n] show False by blast
  qed
qed

lemma match_here_Some:
  "match_here s = Some c \<longleftrightarrow>
     (\<exists>r. s = fence_open @ r \<and> lazy_group fence_close r = Some c)"
  by (auto simp add: match_here_def prefix_def)

lemma match_here_block:
  "json_block s [] c' a' \<Longrightarrow> match_here s \<noteq> None"
  using lazy_group_complete [of fence_close "c' @ fence_close @ a'" c' a']
  by (auto simp add: json_block_def match_here_def)

lemma json_block_Cons:
  "json_block (x # xs) b c a \<Longrightarrow> b \<noteq> [] \<Longrightarrow> \<exists>b0. b = x # b0 \<and> json_block xs b0 c a"
  by (cases b) (auto simp add: json_block_def)

lemma json_match_None: "json_match s = None \<Longrightarrow> \<not> has_json_block s"
proof (induction s)
  case Nil
  then show ?case
    by (simp add: has_json_block_def json_block_def fence_open_neq_Nil)
next
  case (Cons x xs)
  from Cons.prems have n: "match_here (x # xs) = None" and "json_match xs = None"
    by (auto split: option.splits)
  with Cons.IH have no: "\<not> has_json_block xs" by simp
  show ?case
  proof
    assume "has_json_block (x # xs)"
    then obtain b c a where blk: "json_block (x # xs) b c a"
      by (auto simp add: has_json_block_def)
    show False
    proof (cases "b = []")
      case True
      with blk n match_here_block show False by blast
    next
      case False
      from json_block_Cons [OF blk False] no show False
        by (auto simp add: has_json_block_def)
    qed
  qed
qed

lemma json_match_Some: "json_match s = Some c \<Longrightarrow> first_json_block s c"
proof (induction s)
  case Nil
  then show ?case by (simp add: match_here_def fence_open_neq_Nil)
next
  case (Cons x xs)
  show ?case
  proof (cases "match_here (x # xs)")
    case (Some g)
    with Cons.prems have g: "g = c" by simp
    from Some g obtain r where r: "x # xs = fence_open @ r" "lazy_group fence_close r = Some c"
      by (auto simp add: match_here_Some)
    from lazy_group_sound [OF r(2)] obtain a where a: "r = c @ fence_close @ a" ..
    have blk: "json_block (x # xs) [] c a"
      using r(1) a by (simp add: json_block_def)
    have "length c \<le> length c'" if "json_block (x # xs) [] c' a'" for c' a'
      using that r lazy_group_least [OF r(2), of c' a'] by (simp add: json_block_def)
    then have "\<forall>b' c' a'. json_block (x # xs) b' c' a' \<longrightarrow>
        length ([]::string) < length b' \<or> (length ([]::string) = length b' \<and> length c \<le> length c')"
      by auto
    with blk show ?thesis unfolding first_json_block_def by blast
  next
    case None
    with Cons.prems have "json_match xs = Some c" by simp
    from Cons.IH [OF this] obtain b a where
      blk: "json_block xs b c a" and
      least: "\<forall>b' c' a'. json_block xs b' c' a' \<longrightarrow>
        length b < length b' \<or> (length b = length b' \<and> length c \<le> length c')"
      unfolding first_json_block_def by blast
    have blk': "json_block (x # xs) (x # b) c a"
      using blk by (simp add: json_block_def)
    have "length (x # b) < length b' \<or> (length (x # b) = length b' \<and> length c \<le> length c')"
      if other: "json_block (x # xs) b' c' a'" for b' c' a'
    proof (cases "b' = []")
      case True
      with other None match_here_block show ?thesis by blast
    next
      case False
      from json_block_Cons [OF other False] obtain b0 where
        "b' = x # b0" "json_block xs b0 c' a'" by blast
      with least show ?thesis by auto
    qed
    with blk' show ?thesis unfolding first_json_block_def by blast
  qed
qed

lemma first_json_block_unique:
  assumes "first_json_block s c" and "first_json_block s c'"
  shows "c = c'"
proof -
  from assms(1) obtain b a where
    blk: "json_block s b c a" and
    least: "\<forall>b' c' a'. json_block s b' c' a' \<longrightarrow>
      length b < length b' \<or> (length b = length b' \<and> length c \<le> length c')"
    unfolding first_json_block_def by blast
  from assms(2) obtain b' a' where
    blk': "json_block s b' c' a'" and
    least': "\<forall>b c a. json_block s b c a \<longrightarrow>
      length b' < length b \<or> (length b' = length b \<and> length c' \<le> length c)"
    unfolding first_json_block_def by blast
  from least blk' least' blk have len: "length b = length b'" "length c = length c'"
    by (force, force)
  from blk blk' have "b @ fence_open @ c @ fence_close @ a = b' @ fence_open @ c' @ fence_close @ a'"
    by (simp add: json_block_def)
  with len(1) have "c @ fence_close @ a = c' @ fence_close @ a'" by simp
  with len(2) show ?thesis by simp
qed

lemma json_match_first: "json_match s = Some c \<longleftrightarrow> first_json_block s c"
proof
  assume "json_match s = Some c"
  then show "first_json_block s c" by (rule json_match_Some)
next
  assume f: "first_json_block s c"
  then have "has_json_block s"
    by (auto simp add: first_json_block_def has_json_block_def)
  with json_match_None obtain c' where c': "json_match s = Some c'"
    by (cases "json_match s") auto
  from first_json_block_unique [OF f json_match_Some [OF c']] c'
  show "json_match s = Some c" by simp
qed

lemma json_match_has: "json_match s = None \<longleftrightarrow> \<not> has_json_block s"
proof
  assume "json_match s = None"
  then show "\<not> has_json_block s" by (rule json_match_None)
next
  assume n: "\<not> has_json_block s"
  show "json_match s = None"
  proof (cases "json_match s")
    case None
    then show ?thesis .
  next
    case (Some c)
    from json_match_Some [OF this] n show ?thesis
      by (auto simp add: first_json_block_def has_json_block_def)
  qed
qed

lemma extract_json_parse_input: "extract_json w reply = JSON_parse w (parse_input reply)"
  by (simp add: extract_json_def parse_input_def split: option.splits)

lemma json_match_fenced: "json_match reply_fenced = Some ''[]''"
  by (simp add: reply_fenced_def match_here_def fence_open_def fence_close_def)

lemma json_match_empty_fence: "json_match reply_empty_fence = Some []"
  by (simp add: reply_empty_fence_def match_here_def fence_open_def fence_close_def)






lemma and_includes_id:
  "and_includes (headers request ''accept-language'') ''id'' \<longleftrightarrow>
     (\<exists>v. headers request ''accept-language'' = Some v \<and> sublist ''id'' v)"
  by (auto simp add: and_includes_def split: option.splits)

subsection \<open>The method check\<close>

text \<open>
  C3. A request whose method is not POST is answered 405 with the message
  \<open>Method Not Allowed\<close>, in all three versions; the run has no effect at all, so the body
  is not parsed and the model is not contacted.
\<close>

theorem non_post_405:
  "method' request \<noteq> ''POST'' \<Longrightarrow>
     handler w request =
       ([], \<lparr>status = 405, json_body = JObject [(''message'', JString ''Method Not Allowed'')]\<rparr>)
   \<and> handler_fundamental w request =
       ([], \<lparr>status = 405, json_body = JObject [(''message'', JString ''Method Not Allowed'')]\<rparr>)
   \<and> handler_flash w request =
       ([], \<lparr>status = 405, json_body = JObject [(''message'', JString ''Method Not Allowed'')]\<rparr>)"
  by (simp add: handler_def handler_fundamental_def handler_flash_def status_json_def
      message_body_def)

theorem non_post_405_witness:
  "method' (demo_request\<lparr>method' := ''GET''\<rparr>) \<noteq> ''POST''
   \<and> handler demo_world (demo_request\<lparr>method' := ''GET''\<rparr>) =
       ([], \<lparr>status = 405, json_body = JObject [(''message'', JString ''Method Not Allowed'')]\<rparr>)
   \<and> handler_fundamental demo_world (demo_request\<lparr>method' := ''GET''\<rparr>) =
       ([], \<lparr>status = 405, json_body = JObject [(''message'', JString ''Method Not Allowed'')]\<rparr>)
   \<and> handler_flash demo_world (demo_request\<lparr>method' := ''GET''\<rparr>) =
       ([], \<lparr>status = 405, json_body = JObject [(''message'', JString ''Method Not Allowed'')]\<rparr>)"
  using non_post_405 [of "demo_request\<lparr>method' := ''GET''\<rparr>" demo_world]
  by (simp add: demo_request_def)

subsection \<open>The credential check\<close>

text \<open>
  C6. A POST handled while the API key is not set (the variable is absent, or empty, which
  the check cannot tell apart) is answered 500 with a message that is a constant of the
  version; the run has no effect, so the check comes before the body is parsed and before
  the model is contacted.
\<close>

theorem missing_key_500:
  "method' request = ''POST'' \<Longrightarrow> \<not> truthy (GEMINI_API_KEY w) \<Longrightarrow>
     handler w request =
       ([], \<lparr>status = 500, json_body =
               JObject [(''message'', JString ''Server is full, please try again later.'')]\<rparr>)
   \<and> handler_fundamental w request =
       ([], \<lparr>status = 500, json_body =
               JObject [(''message'', JString ''Server is full, please try again later.'')]\<rparr>)
   \<and> handler_flash w request =
       ([], \<lparr>status = 500, json_body =
               JObject [(''message'',
                 JString ''GEMINI_API_KEY environment variable is not configured.'')]\<rparr>)"
  by (simp add: handler_def handler_fundamental_def handler_flash_def status_json_def
      message_body_def)

theorem missing_key_500_witness:
  "method' demo_request = ''POST''
   \<and> \<not> truthy (GEMINI_API_KEY (demo_world\<lparr>GEMINI_API_KEY := None\<rparr>))
   \<and> handler (demo_world\<lparr>GEMINI_API_KEY := None\<rparr>) demo_request =
       ([], \<lparr>status = 500, json_body =
               JObject [(''message'', JString ''Server is full, please try again later.'')]\<rparr>)
   \<and> handler_fundamental (demo_world\<lparr>GEMINI_API_KEY := None\<rparr>) demo_request =
       ([], \<lparr>status = 500, json_body =
               JObject [(''message'', JString ''Server is full, please try again later.'')]\<rparr>)
   \<and> handler_flash (demo_world\<lparr>GEMINI_API_KEY := None\<rparr>) demo_request =
       ([], \<lparr>status = 500, json_body =
               JObject [(''message'',
                 JString ''GEMINI_API_KEY environment variable is not configured.'')]\<rparr>)"
  using missing_key_500 [of demo_request "demo_world\<lparr>GEMINI_API_KEY := None\<rparr>"]
  by (simp add: demo_request_def truthy_def)

subsection \<open>The upload checks\<close>

text \<open>
  C4. The body is parsed once the method and credential checks have passed. When the
  parsed body has no \<open>image\<close> file (the field is absent, or an empty list), the answer is 400
  with the message \<open>No image file uploaded.\<close>; the only effect of the run is the parse of the
  form, so the model is not contacted. (Both versions the claim cites.)
\<close>

theorem no_image_400:
  assumes "method' request = ''POST''"
    and "truthy (GEMINI_API_KEY w)"
    and "form_parse w request = Inr (fields', files)"
    and "files ''image'' = None \<or> files ''image'' = Some []"
  shows "handler w request =
           ([FormParse],
            \<lparr>status = 400, json_body = JObject [(''message'', JString ''No image file uploaded.'')]\<rparr>)
       \<and> handler_fundamental w request =
           ([FormParse],
            \<lparr>status = 400, json_body = JObject [(''message'', JString ''No image file uploaded.'')]\<rparr>)
       \<and> model_calls (fst (handler w request)) = 0
       \<and> model_calls (fst (handler_fundamental w request)) = 0"
  using assms(1,2) handler_try_no_image [OF assms(3,4)]
  by (simp add: handler_def handler_fundamental_def status_json_def message_body_def
      model_calls_def)

theorem no_image_400_witness:
  "handler (demo_world\<lparr>form_parse := (\<lambda>r. Inr (demo_fields, Map.empty))\<rparr>) demo_request =
           ([FormParse],
            \<lparr>status = 400, json_body = JObject [(''message'', JString ''No image file uploaded.'')]\<rparr>)
   \<and> handler_fundamental (demo_world\<lparr>form_parse := (\<lambda>r. Inr (demo_fields, Map.empty))\<rparr>)
         demo_request =
           ([FormParse],
            \<lparr>status = 400, json_body = JObject [(''message'', JString ''No image file uploaded.'')]\<rparr>)
   \<and> model_calls (fst (handler (demo_world\<lparr>form_parse := (\<lambda>r. Inr (demo_fields, Map.empty))\<rparr>)
         demo_request)) = 0
   \<and> model_calls (fst (handler_fundamental
         (demo_world\<lparr>form_parse := (\<lambda>r. Inr (demo_fields, Map.empty))\<rparr>) demo_request)) = 0"
  by (rule no_image_400 [where fields' = demo_fields and files = Map.empty])
     (simp_all add: demo_request_def demo_world_def truthy_def)

text \<open>
  C5. When the first \<open>image\<close> file of the parsed body has a MIME type that does not start
  with \<open>image/\<close>, the answer is 400 with the message
  \<open>Invalid file type. Please upload an image.\<close>, and again the only effect is the parse
  of the form. (Both versions the claim cites.)
\<close>

theorem non_image_400:
  assumes "method' request = ''POST''"
    and "truthy (GEMINI_API_KEY w)"
    and "form_parse w request = Inr (fields', files)"
    and "files ''image'' = Some (imageFile # others)"
    and "mimetype imageFile = Str mt"
    and "\<not> prefix ''image/'' mt"
  shows "handler w request =
           ([FormParse],
            \<lparr>status = 400, json_body =
               JObject [(''message'', JString ''Invalid file type. Please upload an image.'')]\<rparr>)
       \<and> handler_fundamental w request =
           ([FormParse],
            \<lparr>status = 400, json_body =
               JObject [(''message'', JString ''Invalid file type. Please upload an image.'')]\<rparr>)
       \<and> model_calls (fst (handler w request)) = 0
       \<and> model_calls (fst (handler_fundamental w request)) = 0"
  using assms(1,2,5,6) handler_try_image [OF assms(3,4)]
  by (simp add: handler_def handler_fundamental_def status_json_def message_body_def
      model_calls_def startsWith_def)

theorem non_image_400_witness:
  "handler (demo_world\<lparr>form_parse := (\<lambda>r. Inr (demo_fields,
         [''image'' \<mapsto> [demo_file\<lparr>mimetype := Str ''application/pdf''\<rparr>]]))\<rparr>) demo_request =
           ([FormParse],
            \<lparr>status = 400, json_body =
               JObject [(''message'', JString ''Invalid file type. Please upload an image.'')]\<rparr>)
   \<and> handler_fundamental (demo_world\<lparr>form_parse := (\<lambda>r. Inr (demo_fields,
         [''image'' \<mapsto> [demo_file\<lparr>mimetype := Str ''application/pdf''\<rparr>]]))\<rparr>) demo_request =
           ([FormParse],
            \<lparr>status = 400, json_body =
               JObject [(''message'', JString ''Invalid file type. Please upload an image.'')]\<rparr>)
   \<and> model_calls (fst (handler (demo_world\<lparr>form_parse := (\<lambda>r. Inr (demo_fields,
         [''image'' \<mapsto> [demo_file\<lparr>mimetype := Str ''application/pdf''\<rparr>]]))\<rparr>) demo_request)) = 0
   \<and> model_calls (fst (handler_fundamental (demo_world\<lparr>form_parse := (\<lambda>r. Inr (demo_fields,
         [''image'' \<mapsto> [demo_file\<lparr>mimetype := Str ''application/pdf''\<rparr>]]))\<rparr>) demo_request)) = 0"
  by (rule non_image_400 [where fields' = demo_fields
        and files = "[''image'' \<mapsto> [demo_file\<lparr>mimetype := Str ''application/pdf''\<rparr>]]"
        and imageFile = "demo_file\<lparr>mimetype := Str ''application/pdf''\<rparr>"
        and others = "[]" and mt = "''application/pdf''"])
     (simp_all add: demo_request_def demo_world_def truthy_def)

text \<open>
  C9. When the MIME type of the first \<open>image\<close> file is \<open>null\<close> or \<open>undefined\<close>, the type
  check itself throws: the run goes to the generic catch block, which logs the error and
  answers 500 with the error's text, not 400. (Both versions the claim cites.)
\<close>

theorem null_mimetype_500:
  assumes "method' request = ''POST''"
    and "truthy (GEMINI_API_KEY w)"
    and "form_parse w request = Inr (fields', files)"
    and "files ''image'' = Some (imageFile # others)"
    and "mimetype imageFile = Null \<or> mimetype imageFile = Undefined"
  shows "\<exists>error. startsWith (mimetype imageFile) ''image/'' = Inl error
       \<and> handler w request =
           ([FormParse, ConsoleError ''Error in analyze-chart API:'' error],
            \<lparr>status = 500, json_body =
               JObject [(''message'', JString (errorMessage request error))]\<rparr>)
       \<and> handler_fundamental w request =
           ([FormParse, ConsoleError ''Error in analyze-chart API:'' error],
            \<lparr>status = 500, json_body =
               JObject [(''message'', JString (errorMessage request error))]\<rparr>)"
  using assms(1,2,5) handler_try_image [OF assms(3,4)]
  by (auto simp add: handler_def handler_fundamental_def status_json_def message_body_def
      startsWith_def)

theorem null_mimetype_500_witness:
  "\<exists>error. startsWith (mimetype (demo_file\<lparr>mimetype := Null\<rparr>)) ''image/'' = Inl error
   \<and> handler (demo_world\<lparr>form_parse := (\<lambda>r. Inr (demo_fields,
         [''image'' \<mapsto> [demo_file\<lparr>mimetype := Null\<rparr>]]))\<rparr>) demo_request =
           ([FormParse, ConsoleError ''Error in analyze-chart API:'' error],
            \<lparr>status = 500, json_body =
               JObject [(''message'', JString (errorMessage demo_request error))]\<rparr>)
   \<and> handler_fundamental (demo_world\<lparr>form_parse := (\<lambda>r. Inr (demo_fields,
         [''image'' \<mapsto> [demo_file\<lparr>mimetype := Null\<rparr>]]))\<rparr>) demo_request =
           ([FormParse, ConsoleError ''Error in analyze-chart API:'' error],
            \<lparr>status = 500, json_body =
               JObject [(''message'', JString (errorMessage demo_request error))]\<rparr>)"
  by (rule null_mimetype_500 [where fields' = demo_fields
        and files = "[''image'' \<mapsto> [demo_file\<lparr>mimetype := Null\<rparr>]]"
        and others = "[]"])
     (simp_all add: demo_request_def demo_world_def truthy_def)

subsection \<open>The reply of the model\<close>






subsection \<open>Other failures\<close>

text \<open>
  C7, as the code has it. Take a POST handled with the key set. When a step of the run
  fails with an error (the multipart parser, the file read, the call to the provider, the
  reading of its reply), the answer is 500 and its message ends with the error's own
  text. In \<open>handler\<close> and \<open>handler_fundamental\<close> the text before it is Indonesian when the
  request has an \<open>accept-language\<close> header that contains \<open>id\<close>, and English otherwise. In
  \<open>handler_flash\<close> it is always the same English text, whatever the header.
\<close>

theorem failure_echoed_500:
  assumes "method' request = ''POST''" and "truthy (GEMINI_API_KEY w)"
  shows "(failure ''gemini-1.5-pro'' model_request w request = Some error \<longrightarrow>
            snd (handler w request) =
              \<lparr>status = 500, json_body = JObject [(''message'', JString
                 ((if (\<exists>v. headers request ''accept-language'' = Some v \<and> sublist ''id'' v)
                   then ''Gagal menganalisis grafik. Detail kesalahan: ''
                   else ''Failed to analyze chart. Error details: '') @ message error))]\<rparr>)
       \<and> (failure ''gemini-2.5-pro'' model_request_fundamental w request = Some error \<longrightarrow>
            snd (handler_fundamental w request) =
              \<lparr>status = 500, json_body = JObject [(''message'', JString
                 ((if (\<exists>v. headers request ''accept-language'' = Some v \<and> sublist ''id'' v)
                   then ''Gagal menganalisis grafik. Detail kesalahan: ''
                   else ''Failed to analyze chart. Error details: '') @ message error))]\<rparr>)
       \<and> (failure_flash w request = Some error \<longrightarrow>
            snd (handler_flash w request) =
              \<lparr>status = 500, json_body = JObject [(''message'', JString
                 (''Failed to analyze chart. Please check the image and try again. Error: ''
                  @ message error))]\<rparr>)"
  using assms handler_try_failure [of w request error]
    handler_try_fundamental_failure [of w request error]
    handler_try_flash_failure [of w request error]
    and_includes_id [of request]
  by (auto simp add: handler_def handler_fundamental_def handler_flash_def errorMessage_def
      status_json_def message_body_def split: prod.splits sum.splits)

text \<open>Conversely, with the key set a POST is answered 500 only after such a failure.\<close>

lemma status_500_failure:
  assumes "method' request = ''POST''" and "truthy (GEMINI_API_KEY w)"
  shows "status (snd (handler w request)) = 500 \<longleftrightarrow>
           failure ''gemini-1.5-pro'' model_request w request \<noteq> None"
    and "status (snd (handler_fundamental w request)) = 500 \<longleftrightarrow>
           failure ''gemini-2.5-pro'' model_request_fundamental w request \<noteq> None"
  using assms
  by (auto simp add: handler_def handler_fundamental_def handler_try_cases
      handler_try_fundamental_cases analyze_cases analyze_fundamental_cases failure_def
      status_json_def
      split: sum.splits option.splits list.splits prod.splits if_splits)

theorem failure_echoed_500_witness:
  "snd (handler world_offline demo_request) =
     \<lparr>status = 500, json_body = JObject [(''message'', JString
         ''Gagal menganalisis grafik. Detail kesalahan: fetch failed'')]\<rparr>
   \<and> snd (handler_fundamental world_offline demo_request) =
     \<lparr>status = 500, json_body = JObject [(''message'', JString
         ''Gagal menganalisis grafik. Detail kesalahan: fetch failed'')]\<rparr>
   \<and> snd (handler world_offline request_english) =
     \<lparr>status = 500, json_body = JObject [(''message'', JString
         ''Failed to analyze chart. Error details: fetch failed'')]\<rparr>
   \<and> snd (handler_fundamental world_offline request_english) =
     \<lparr>status = 500, json_body = JObject [(''message'', JString
         ''Failed to analyze chart. Error details: fetch failed'')]\<rparr>
   \<and> snd (handler_flash world_offline request_english) =
     \<lparr>status = 500, json_body = JObject [(''message'', JString
         ''Failed to analyze chart. Please check the image and try again. Error: formidable is not a function'')]\<rparr>"
proof -
  have f: "failure ''gemini-1.5-pro'' model_request world_offline demo_request
             = Some (Error ''fetch failed'')"
    "failure ''gemini-2.5-pro'' model_request_fundamental world_offline demo_request
             = Some (Error ''fetch failed'')"
    "failure ''gemini-1.5-pro'' model_request world_offline request_english
             = Some (Error ''fetch failed'')"
    "failure ''gemini-2.5-pro'' model_request_fundamental world_offline request_english
             = Some (Error ''fetch failed'')"
    "failure_flash world_offline request_english = Some (Error ''formidable is not a function'')"
    by (simp_all add: failure_def failure_flash_def world_offline_def demo_world_def
        demo_files_def demo_file_def startsWith_def)
  have s: "sublist ''id'' ''id-ID,id;q=0.9''"
    by simp
  have t: "\<not> sublist ''id'' ''en-US,en;q=0.9''"
    by code_simp
  have l: "\<exists>v. headers demo_request ''accept-language'' = Some v \<and> sublist ''id'' v"
    using s by (simp add: demo_request_def)
  have m: "\<not> (\<exists>v. headers request_english ''accept-language'' = Some v \<and> sublist ''id'' v)"
    using t by (simp add: request_english_def)
  have p: "method' demo_request = ''POST''" "truthy (GEMINI_API_KEY world_offline)"
    by (simp_all add: demo_request_def world_offline_def demo_world_def truthy_def)
  have q: "method' request_english = ''POST''"
    by (simp add: request_english_def demo_request_def)
  note a = failure_echoed_500 [OF p, of "Error ''fetch failed''"]
  note b = failure_echoed_500 [OF q p(2), of "Error ''fetch failed''"]
  note c = failure_echoed_500 [OF q p(2), of "Error ''formidable is not a function''"]
  from a b c f l m show ?thesis by simp
qed

text \<open>
  C7 as stated fails for the third version, whose catch block the claim cites: the
  request's \<open>accept-language\<close> header contains \<open>id\<close>, a step fails, and the message is the
  English one.
\<close>

theorem flash_failure_not_localized:
  "headers demo_request ''accept-language'' = Some ''id-ID,id;q=0.9''
   \<and> sublist ''id'' ''id-ID,id;q=0.9''
   \<and> failure_flash demo_world demo_request = Some (Error ''formidable is not a function'')
   \<and> snd (handler_flash demo_world demo_request) =
     \<lparr>status = 500, json_body = JObject [(''message'', JString
         ''Failed to analyze chart. Please check the image and try again. Error: formidable is not a function'')]\<rparr>"
proof -
  have f: "failure_flash demo_world demo_request = Some (Error ''formidable is not a function'')"
    by (simp add: failure_flash_def demo_world_def)
  have p: "method' demo_request = ''POST''" "truthy (GEMINI_API_KEY demo_world)"
    by (simp_all add: demo_request_def demo_world_def truthy_def)
  have h: "headers demo_request ''accept-language'' = Some ''id-ID,id;q=0.9''"
    by (simp add: demo_request_def)
  have s: "sublist ''id'' ''id-ID,id;q=0.9''"
    by simp
  from handler_try_flash_failure [OF f] p
  have "snd (handler_flash demo_world demo_request) =
     \<lparr>status = 500, json_body = JObject [(''message'', JString
         ''Failed to analyze chart. Please check the image and try again. Error: formidable is not a function'')]\<rparr>"
    by (auto simp add: handler_flash_def status_json_def message_body_def
        split: prod.splits sum.splits)
  with h s f show ?thesis by simp
qed

subsection \<open>The calls to the model\<close>

text \<open>
  C8, as the code has it. A run calls the model at most once, and never again after a
  call that failed. In \<open>handler\<close> and \<open>handler_fundamental\<close> it calls it exactly once when
  the request passes the method, credential and upload validations and the uploaded
  file is read, and not at all otherwise. The call comes after the read of the file: a
  request that passes the validations but whose file cannot be read gets no call.
\<close>

theorem model_called_once_after_read:
  "model_calls (fst (handler w request)) =
     (if passes_validations w request \<and> upload_read w request then 1 else 0)
   \<and> model_calls (fst (handler_fundamental w request)) =
     (if passes_validations w request \<and> upload_read w request then 1 else 0)
   \<and> model_calls (fst (handler w request)) \<le> 1
   \<and> model_calls (fst (handler_fundamental w request)) \<le> 1
   \<and> model_calls (fst (handler_flash w request)) \<le> 1"
  using handler_flash_calls [of w request]
  by (simp add: handler_calls handler_fundamental_calls)

theorem model_called_once_after_read_witness:
  "passes_validations world_offline demo_request \<and> upload_read world_offline demo_request
   \<and> model_calls (fst (handler world_offline demo_request)) = 1
   \<and> model_calls (fst (handler_fundamental world_offline demo_request)) = 1"
proof -
  have "passes_validations world_offline demo_request \<and> upload_read world_offline demo_request"
    by (simp add: passes_validations_def upload_read_def world_offline_def demo_world_def
        demo_request_def demo_files_def demo_file_def truthy_def)
  with model_called_once_after_read [of world_offline demo_request] show ?thesis by simp
qed

text \<open>
  C8 as stated fails: in a world where the uploaded file cannot be read, the request
  passes the three validations and the model is not called.
\<close>

theorem validated_request_without_call:
  "passes_validations world_unread demo_request
   \<and> model_calls (fst (handler world_unread demo_request)) = 0
   \<and> model_calls (fst (handler_fundamental world_unread demo_request)) = 0"
  by (simp add: handler_calls handler_fundamental_calls passes_validations_def upload_read_def
      world_unread_def demo_world_def demo_request_def demo_files_def demo_file_def truthy_def)

subsection \<open>What the two other versions parse\<close>

text \<open>
  C10, as the code has it. In the two versions that search the reply for a fenced block
  (their inner \<open>try\<close> is \<open>extract_json\<close>): when the reply holds a block and the content of
  the first block is not empty, the parsed record is \<open>JSON.parse\<close> of that content only;
  when the content of the first block is empty, and when the reply holds no block, the
  entire reply is parsed.
\<close>

theorem fenced_block_parsed:
  "(first_json_block reply inside \<and> inside \<noteq> [] \<longrightarrow>
       extract_json w reply = JSON_parse w inside)
   \<and> (first_json_block reply [] \<longrightarrow> extract_json w reply = JSON_parse w reply)
   \<and> (\<not> has_json_block reply \<longrightarrow> extract_json w reply = JSON_parse w reply)"
  by (auto simp add: extract_json_def json_match_first [symmetric] json_match_has [symmetric])

theorem fenced_block_parsed_witness:
  "first_json_block reply_fenced ''[]''
   \<and> extract_json demo_world reply_fenced = JSON_parse demo_world ''[]''
   \<and> extract_json demo_world reply_fenced = Inr (JArray [])"
proof -
  have f: "first_json_block reply_fenced ''[]''"
    using json_match_fenced by (simp add: json_match_first)
  have p: "JSON_parse demo_world ''[]'' = Inr (JArray [])"
    by (simp add: demo_world_def demo_parse_def demo_reply_def)
  from fenced_block_parsed [of reply_fenced "''[]''" demo_world] f p show ?thesis by simp
qed

text \<open>
  C10 as stated fails on a block whose content is empty: the block is present, its
  content is the empty string, and what is handed to \<open>JSON.parse\<close> is the entire reply.
\<close>

theorem empty_block_whole_reply_parsed:
  "has_json_block reply_empty_fence
   \<and> first_json_block reply_empty_fence []
   \<and> parse_input reply_empty_fence = reply_empty_fence
   \<and> extract_json demo_world reply_empty_fence = JSON_parse demo_world reply_empty_fence
   \<and> extract_json demo_world reply_empty_fence \<noteq> JSON_parse demo_world []"
proof -
  have f: "first_json_block reply_empty_fence []"
    using json_match_empty_fence by (simp add: json_match_first)
  then have h: "has_json_block reply_empty_fence"
    by (auto simp add: first_json_block_def has_json_block_def)
  have i: "parse_input reply_empty_fence = reply_empty_fence"
    by (simp add: parse_input_def json_match_empty_fence)
  have e: "extract_json demo_world reply_empty_fence = JSON_parse demo_world reply_empty_fence"
    by (simp add: extract_json_def json_match_empty_fence)
  have d: "JSON_parse demo_world reply_empty_fence \<noteq> JSON_parse demo_world []"
    by (simp add: demo_world_def demo_parse_def demo_reply_def reply_empty_fence_def)
  from f h i e d show ?thesis by simp
qed

end
